theory Spec2Isabelle
  imports Complex_Main "HOL-Library.Log_Nat"
begin

section \<open>Python values and faults\<close>

text \<open>
  The view functions of \<^verbatim>\<open>main.py\<close> contain no \<^verbatim>\<open>try\<close> block and the application
  registers no error handler, so every exception raised inside a view leaves it
  unhandled.  A fault is therefore the left summand of a view's outcome.
\<close>

datatype pyexc =
    IndexError
  | KeyError
  | ValueError
  | TypeError
  | BadRequestKeyError
  | StripeError

text \<open>
  A cart value is whatever Python object the views store under a key: an \<^verbatim>\<open>int\<close>
  (written by \<^verbatim>\<open>add_to_cart\<close>) or a \<^verbatim>\<open>str\<close> (written by \<^verbatim>\<open>update_quantity\<close>).
\<close>

datatype pyval = PyInt int | PyStr string

fun truthy :: "pyval \<Rightarrow> bool" where
  "truthy (PyInt n) = (n \<noteq> 0)"
| "truthy (PyStr s) = (s \<noteq> [])"

text \<open>\<^verbatim>\<open>v + 1\<close>: integer addition, and a \<^verbatim>\<open>TypeError\<close> for a string operand.\<close>

fun py_add_one :: "pyval \<Rightarrow> pyexc + pyval" where
  "py_add_one (PyInt n) = Inr (PyInt (n + 1))"
| "py_add_one (PyStr s) = Inl TypeError"

text \<open>List subscription \<^verbatim>\<open>xs[i]\<close>: a negative index counts from the end.\<close>

definition py_index :: "'a list \<Rightarrow> int \<Rightarrow> pyexc + 'a" where
  "py_index xs i =
     (if 0 \<le> i \<and> i < int (length xs) then Inr (xs ! nat i)
      else if i < 0 \<and> - int (length xs) \<le> i then Inr (xs ! nat (int (length xs) + i))
      else Inl IndexError)"

subsection \<open>Floating point\<close>

text \<open>
  A Python \<^verbatim>\<open>float\<close> is a binary64 number.  It is modelled by the rational it denotes;
  every arithmetic operation computes the exact rational result and rounds it to a
  53-bit significand, ties to even.  The exponent is unbounded: overflow to infinity,
  subnormal numbers and NaN are outside the model.
\<close>

type_synonym pyfloat = rat

definition round_half_even :: "rat \<Rightarrow> int" where
  "round_half_even r =
     (let f = \<lfloor>r\<rfloor>; d = r - of_int f
      in if d < 1 / 2 then f
         else if 1 / 2 < d then f + 1
         else if even f then f else f + 1)"

text \<open>\<open>binexp x\<close> is the exponent \<open>e\<close> with \<open>2^e \<le> x < 2^(e+1)\<close>, for positive \<open>x\<close>.\<close>

definition binexp :: "rat \<Rightarrow> int" where
  "binexp x =
     (let (p, q) = quotient_of x; e = bitlen p - bitlen q
      in if power_int 2 e \<le> x then e else e - 1)"

definition fl :: "rat \<Rightarrow> pyfloat" where
  "fl x =
     (if x = 0 then 0
      else let u = power_int 2 (binexp \<bar>x\<bar> - 52)
           in sgn x * of_int (round_half_even (\<bar>x\<bar> / u)) * u)"

definition fmul :: "pyfloat \<Rightarrow> pyfloat \<Rightarrow> pyfloat" where
  "fmul a b = fl (a * b)"

definition fdiv :: "pyfloat \<Rightarrow> pyfloat \<Rightarrow> pyfloat" where
  "fdiv a b = fl (a / b)"

definition fadd :: "pyfloat \<Rightarrow> pyfloat \<Rightarrow> pyfloat" where
  "fadd a b = fl (a + b)"

text \<open>\<^verbatim>\<open>float(n)\<close> for an integer \<open>n\<close>, and the conversion of an \<^verbatim>\<open>int\<close> operand.\<close>

definition float_of_int :: "int \<Rightarrow> pyfloat" where
  "float_of_int n = fl (of_int n)"

text \<open>
  \<^verbatim>\<open>round(x, 2)\<close> on a float: the exact value is rounded to two decimals, ties to
  even, and the decimal result is converted back to the nearest float.
\<close>

definition py_round2 :: "pyfloat \<Rightarrow> pyfloat" where
  "py_round2 x = fl (of_int (round_half_even (x * 100)) / 100)"

text \<open>
  \<^verbatim>\<open>total\<close> in \<^verbatim>\<open>shopping_cart\<close> starts as the \<^verbatim>\<open>int\<close> 0 and becomes a \<^verbatim>\<open>float\<close>
  with the first addition.
\<close>

datatype pynum = NInt int | NFloat pyfloat

fun num_add :: "pynum \<Rightarrow> pyfloat \<Rightarrow> pynum" where
  "num_add (NInt a) x = NFloat (fadd (float_of_int a) x)"
| "num_add (NFloat a) x = NFloat (fadd a x)"

fun num_round2 :: "pynum \<Rightarrow> pynum" where
  "num_round2 (NInt a) = NInt a"
| "num_round2 (NFloat a) = NFloat (py_round2 a)"

subsection \<open>Strings\<close>

text \<open>
  Strings are ASCII.  \<^verbatim>\<open>int(s)\<close> strips white space, reads an optional sign and then
  decimal digits, where single underscores may separate digits.
\<close>

definition is_space :: "char \<Rightarrow> bool" where
  "is_space c = (of_char c \<in> {9, 10, 11, 12, 13, 32 :: nat})"

definition is_digit :: "char \<Rightarrow> bool" where
  "is_digit c = (48 \<le> (of_char c :: nat) \<and> (of_char c :: nat) \<le> 57)"

definition digit_val :: "char \<Rightarrow> int" where
  "digit_val c = int (of_char c) - 48"

definition strip :: "string \<Rightarrow> string" where
  "strip s = rev (dropWhile is_space (rev (dropWhile is_space s)))"

fun parse_digits :: "int \<Rightarrow> bool \<Rightarrow> string \<Rightarrow> int option" where
  "parse_digits acc after_digit [] = (if after_digit then Some acc else None)"
| "parse_digits acc after_digit (c # cs) =
     (if is_digit c then parse_digits (acc * 10 + digit_val c) True cs
      else if c = CHR ''_'' \<and> after_digit then parse_digits acc False cs
      else None)"

definition py_int :: "string \<Rightarrow> pyexc + int" where
  "py_int s =
     (case strip s of
        [] \<Rightarrow> Inl ValueError
      | c # cs \<Rightarrow>
          (case (if c = CHR ''-'' then map_option uminus (parse_digits 0 False cs)
                 else if c = CHR ''+'' then parse_digits 0 False cs
                 else parse_digits 0 False (c # cs)) of
             None \<Rightarrow> Inl ValueError
           | Some n \<Rightarrow> Inr n))"

text \<open>
  \<^verbatim>\<open>float(v)\<close> of a cart value.  The only strings \<^verbatim>\<open>update_quantity\<close> stores are
  those \<^verbatim>\<open>int\<close> has accepted, which \<^verbatim>\<open>float\<close> reads as the same integer; for any
  other string the conversion is reported as a \<^verbatim>\<open>ValueError\<close>.
\<close>

fun py_float :: "pyval \<Rightarrow> pyexc + pyfloat" where
  "py_float (PyInt n) = Inr (float_of_int n)"
| "py_float (PyStr s) =
     (case py_int s of Inl e \<Rightarrow> Inl ValueError | Inr n \<Rightarrow> Inr (float_of_int n))"

text \<open>\<^verbatim>\<open>str(n)\<close> for a non-negative integer, as the f-string formats the index.\<close>

fun str_of_nat :: "nat \<Rightarrow> string" where
  "str_of_nat n =
     (if n < 10 then [char_of (48 + n)]
      else str_of_nat (n div 10) @ [char_of (48 + n mod 10)])"

subsection \<open>Dictionaries\<close>

text \<open>
  A \<^verbatim>\<open>dict\<close> iterates in insertion order, so it is an association list with distinct
  keys.  Assigning to a present key keeps its position, assigning to a new key appends.
\<close>

type_synonym ('k, 'v) pydict = "('k \<times> 'v) list"

definition dict_get :: "('k, 'v) pydict \<Rightarrow> 'k \<Rightarrow> 'v option" where
  "dict_get d k = map_of d k"

fun dict_set :: "('k, 'v) pydict \<Rightarrow> 'k \<Rightarrow> 'v \<Rightarrow> ('k, 'v) pydict" where
  "dict_set [] k v = [(k, v)]"
| "dict_set ((k', v') # d) k v =
     (if k' = k then (k, v) # d else (k', v') # dict_set d k v)"

fun dict_remove :: "('k, 'v) pydict \<Rightarrow> 'k \<Rightarrow> ('k, 'v) pydict" where
  "dict_remove [] k = []"
| "dict_remove ((k', v') # d) k =
     (if k' = k then d else (k', v') # dict_remove d k)"

definition dict_pop :: "('k, 'v) pydict \<Rightarrow> 'k \<Rightarrow> pyexc + ('k, 'v) pydict" where
  "dict_pop d k =
     (case dict_get d k of None \<Rightarrow> Inl KeyError | Some v \<Rightarrow> Inr (dict_remove d k))"

definition dict_keys :: "('k, 'v) pydict \<Rightarrow> 'k list" where
  "dict_keys d = map fst d"

section \<open>Application state\<close>

text \<open>
  A row of the \<^verbatim>\<open>Meal\<close> table as \<^verbatim>\<open>to_dict\<close> returns it.  The list \<^verbatim>\<open>meals\<close> holds
  the rows in the order the query returned them.
\<close>

record meal =
  meal_id :: int
  name :: string
  price :: pyfloat

text \<open>
  One element of \<^verbatim>\<open>line_items\<close>: the nested dictionary built by \<^verbatim>\<open>get_line_items\<close>,
  flattened.
\<close>

record line_item =
  currency :: string
  product_name :: string
  unit_amount_decimal :: pyfloat
  quantity :: pyval

text \<open>
  The module-level globals \<^verbatim>\<open>meals\<close> and \<^verbatim>\<open>cart\<close>, together with the two effects a
  view has besides them: the messages passed to \<^verbatim>\<open>flash\<close> and the requests submitted to
  \<^verbatim>\<open>stripe.checkout.Session.create\<close>.  Cart keys are what the route converter
  \<^verbatim>\<open><int:meal_id>\<close> yields, a non-negative integer.
\<close>

record world =
  meals :: "meal list"
  cart :: "(nat, pyval) pydict"
  flashes :: "string list"
  stripe_calls :: "line_item list list"

text \<open>
  What a view reads from the request context: \<^verbatim>\<open>request.method\<close>, \<^verbatim>\<open>request.form\<close> and
  \<^verbatim>\<open>current_user.is_authenticated\<close>.  A route that allows GET also answers HEAD.
\<close>

datatype http_method = GET | HEAD | POST

record ctx =
  req_method :: http_method
  form :: "(string \<times> string) list"
  is_authenticated :: bool

text \<open>\<^verbatim>\<open>request.form[key]\<close>: the first value of the key, or a \<^verbatim>\<open>BadRequestKeyError\<close>.\<close>

definition form_get :: "(string \<times> string) list \<Rightarrow> string \<Rightarrow> pyexc + string" where
  "form_get f k = (case map_of f k of None \<Rightarrow> Inl BadRequestKeyError | Some v \<Rightarrow> Inr v)"

datatype response =
    Redirect string nat
  | Render string
  | RenderCart pynum "line_item list" "nat list"

text \<open>\<^verbatim>\<open>url_for\<close> on the endpoints the views redirect to, from the route table.\<close>

definition url_for :: "string \<Rightarrow> string" where
  "url_for endpoint =
     (if endpoint = ''home'' then ''/''
      else if endpoint = ''login'' then ''/login''
      else if endpoint = ''shopping_cart'' then ''/shopping-cart''
      else [])"

text \<open>A view returns a response or raises, and leaves the globals as it changed them.\<close>

type_synonym outcome = "(pyexc + response) \<times> world"

section \<open>The views\<close>

subsection \<open>\<^verbatim>\<open>get_line_items\<close>\<close>

text \<open>The dictionary appended for one cart entry, given the meal it was resolved to.\<close>

definition make_line_item :: "meal \<Rightarrow> pyval \<Rightarrow> line_item" where
  "make_line_item m q =
     \<lparr>currency = ''usd'', product_name = name m,
      unit_amount_decimal = fmul (price m) 100, quantity = q\<rparr>"

fun line_items_loop ::
  "meal list \<Rightarrow> (nat, pyval) pydict \<Rightarrow> line_item list \<Rightarrow> nat list
     \<Rightarrow> pyexc + (line_item list \<times> nat list)" where
  "line_items_loop ms [] lis ids = Inr (lis, ids)"
| "line_items_loop ms ((item, q) # rest) lis ids =
     (case py_index ms (int item - 1) of
        Inl e \<Rightarrow> Inl e
      | Inr m \<Rightarrow>
          line_items_loop ms rest (lis @ [make_line_item m q]) (ids @ [item]))"

definition get_line_items :: "world \<Rightarrow> pyexc + (line_item list \<times> nat list)" where
  "get_line_items w = line_items_loop (meals w) (cart w) [] []"

subsection \<open>\<^verbatim>\<open>create_checkout_session\<close>\<close>

text \<open>
  The payment provider is a parameter: given the line items it returns the session's
  URL or raises.  Every submission is recorded in \<open>stripe_calls\<close>.
\<close>

definition create_checkout_session ::
  "(line_item list \<Rightarrow> pyexc + string) \<Rightarrow> ctx \<Rightarrow> world \<Rightarrow> outcome" where
  "create_checkout_session stripe_create c w =
     (if is_authenticated c then
        if cart w \<noteq> [] then
          (case get_line_items w of
             Inl e \<Rightarrow> (Inl e, w)
           | Inr (lis, ids) \<Rightarrow>
               (case stripe_create lis of
                  Inl e \<Rightarrow> (Inl e, w\<lparr>stripe_calls := stripe_calls w @ [lis]\<rparr>)
                | Inr url \<Rightarrow>
                    (Inr (Redirect url 303), w\<lparr>stripe_calls := stripe_calls w @ [lis]\<rparr>)))
        else (Inr (Redirect (url_for ''home'') 302), w)
      else
        (Inr (Redirect (url_for ''login'') 302),
         w\<lparr>flashes := flashes w @ [''You must be signed in to checkout. Please log in!'']\<rparr>))"

subsection \<open>\<^verbatim>\<open>order_success\<close> and \<^verbatim>\<open>cancel\<close>\<close>

definition order_success :: "ctx \<Rightarrow> world \<Rightarrow> outcome" where
  "order_success c w = (Inr (Render ''success.html''), w\<lparr>cart := []\<rparr>)"

definition cancel :: "ctx \<Rightarrow> world \<Rightarrow> outcome" where
  "cancel c w = (Inr (Redirect (url_for ''shopping_cart'') 302), w)"

subsection \<open>\<^verbatim>\<open>add_to_cart\<close>\<close>

definition add_to_cart :: "nat \<Rightarrow> ctx \<Rightarrow> world \<Rightarrow> outcome" where
  "add_to_cart mid c w =
     (case dict_get (cart w) mid of
        None \<Rightarrow> (Inr (Redirect (url_for ''home'') 302), w\<lparr>cart := dict_set (cart w) mid (PyInt 1)\<rparr>)
      | Some v \<Rightarrow>
          if truthy v then
            (case py_add_one v of
               Inl e \<Rightarrow> (Inl e, w)
             | Inr v' \<Rightarrow>
                 (Inr (Redirect (url_for ''home'') 302), w\<lparr>cart := dict_set (cart w) mid v'\<rparr>))
          else (Inr (Redirect (url_for ''home'') 302), w\<lparr>cart := dict_set (cart w) mid (PyInt 1)\<rparr>))"

subsection \<open>\<^verbatim>\<open>shopping_cart\<close>\<close>

fun total_loop :: "line_item list \<Rightarrow> pynum \<Rightarrow> pyexc + pynum" where
  "total_loop [] tot = Inr tot"
| "total_loop (item # rest) tot =
     (case py_float (quantity item) of
        Inl e \<Rightarrow> Inl e
      | Inr q \<Rightarrow>
          total_loop rest (num_add tot (fmul (fdiv (unit_amount_decimal item) 100) q)))"

definition shopping_cart :: "ctx \<Rightarrow> world \<Rightarrow> outcome" where
  "shopping_cart c w =
     (case get_line_items w of
        Inl e \<Rightarrow> (Inl e, w)
      | Inr (lis, ids) \<Rightarrow>
          (case total_loop lis (NInt 0) of
             Inl e \<Rightarrow> (Inl e, w)
           | Inr tot \<Rightarrow> (Inr (RenderCart (num_round2 tot) lis ids), w)))"

subsection \<open>\<^verbatim>\<open>update_quantity\<close>\<close>

definition cart_redirect :: response where
  "cart_redirect = Redirect (url_for ''shopping_cart'') 302"

text \<open>\<^verbatim>\<open>cart.pop(cart_idx)\<close>, followed by the redirect that ends the view.\<close>

definition pop_entry :: "nat \<Rightarrow> world \<Rightarrow> outcome" where
  "pop_entry k w =
     (case dict_pop (cart w) k of
        Inl e \<Rightarrow> (Inl e, w)
      | Inr d \<Rightarrow> (Inr cart_redirect, w\<lparr>cart := d\<rparr>))"

definition update_quantity :: "nat \<Rightarrow> ctx \<Rightarrow> world \<Rightarrow> outcome" where
  "update_quantity item_idx c w =
     (case py_index (dict_keys (cart w)) (int item_idx) of
        Inl e \<Rightarrow> (Inl e, w)
      | Inr cart_idx \<Rightarrow>
          if req_method c = GET then pop_entry cart_idx w
          else
            (case form_get (form c) (''quantity-'' @ str_of_nat item_idx) of
               Inl e \<Rightarrow> (Inl e, w)
             | Inr s \<Rightarrow>
                 (case py_int s of
                    Inl e \<Rightarrow> (Inl e, w)
                  | Inr n \<Rightarrow>
                      if 0 < n then
                        (Inr cart_redirect, w\<lparr>cart := dict_set (cart w) cart_idx (PyStr s)\<rparr>)
                      else pop_entry cart_idx w)))"

subsection \<open>Serving requests one after another\<close>

text \<open>
  The process serves the requests in turn; a view that raises does not stop the
  process, and the next request sees the globals as the failed one left them.
\<close>

fun serve :: "(world \<Rightarrow> outcome) list \<Rightarrow> world \<Rightarrow> (pyexc + response) list \<times> world" where
  "serve [] w = ([], w)"
| "serve (h # hs) w =
     (case h w of (r, w') \<Rightarrow> (case serve hs w' of (rs, w'') \<Rightarrow> (r # rs, w'')))"

section \<open>The deriver of the specification, and example data\<close>

text \<open>
  The error names of the specification's cart taxonomy.  No view of the source
  produces any of them.
\<close>

datatype cart_error = InvalidItem | InvalidQuantity | UnknownItem

text \<open>
  The deriver as the specification words it: each cart key is looked up among the
  catalog ids, and a key without a catalog item is \<open>UnknownItem\<close>.  The line item
  itself is built as the source builds it, so that only the lookup differs from
  \<open>get_line_items\<close>.
\<close>

fun derive_by_id :: "meal list \<Rightarrow> (nat, pyval) pydict \<Rightarrow> cart_error + line_item list" where
  "derive_by_id ms [] = Inr []"
| "derive_by_id ms ((k, q) # rest) =
     (case find (\<lambda>m. meal_id m = int k) ms of
        None \<Rightarrow> Inl UnknownItem
      | Some m \<Rightarrow>
          (case derive_by_id ms rest of
             Inl e \<Rightarrow> Inl e
           | Inr lis \<Rightarrow> Inr (make_line_item m q # lis)))"

definition soup :: meal where
  "soup = \<lparr>meal_id = 1, name = ''Soup'', price = 9 / 2\<rparr>"

definition salad :: meal where
  "salad = \<lparr>meal_id = 2, name = ''Salad'', price = 6\<rparr>"

definition example_world :: world where
  "example_world = \<lparr>meals = [soup, salad], cart = [], flashes = [], stripe_calls = []\<rparr>"

text \<open>The same two rows, returned by the query in the other order.\<close>

definition reordered_world :: world where
  "reordered_world = \<lparr>meals = [salad, soup], cart = [], flashes = [], stripe_calls = []\<rparr>"

text \<open>
  A catalog with the prices 4.35 (the float nearest to it) and 0.125, and one of each
  in the cart.
\<close>

definition priced_world :: world where
  "priced_world =
     \<lparr>meals = [\<lparr>meal_id = 1, name = ''Stew'', price = fl (87 / 20)\<rparr>,
               \<lparr>meal_id = 2, name = ''Tea'', price = 1 / 8\<rparr>],
      cart = [(1, PyInt 1), (2, PyInt 1)], flashes = [], stripe_calls = []\<rparr>"

text \<open>A request of a visitor who is not signed in.\<close>

definition visitor :: "http_method \<Rightarrow> (string \<times> string) list \<Rightarrow> ctx" where
  "visitor m f = \<lparr>req_method = m, form = f, is_authenticated = False\<rparr>"

section \<open>Facts about the Python primitives\<close>

lemma py_index_error: "py_index xs i = Inl e \<Longrightarrow> e = IndexError"
  by (auto simp: py_index_def split: if_splits)

lemma py_index_nat:
  "py_index xs (int i) = (if i < length xs then Inr (xs ! i) else Inl IndexError)"
  by (simp add: py_index_def)

lemma py_int_error: "py_int s = Inl e \<Longrightarrow> e = ValueError"
  by (auto simp: py_int_def split: list.splits option.splits if_splits)

lemma integral_iff_rounded: "(x = of_int (round_half_even x)) = (x \<in> \<int>)"
proof
  assume "x = of_int (round_half_even x)"
  then show "x \<in> \<int>" by (metis Ints_of_int)
next
  assume "x \<in> \<int>"
  then obtain n where "x = of_int n" by (auto elim: Ints_cases)
  then show "x = of_int (round_half_even x)" by (simp add: round_half_even_def)
qed

subsection \<open>Dictionaries with distinct keys\<close>

lemma dict_get_absent: "k \<notin> set (dict_keys d) \<Longrightarrow> dict_get d k = None"
  by (simp add: dict_get_def dict_keys_def map_of_eq_None_iff)

lemma dict_set_absent: "k \<notin> set (dict_keys d) \<Longrightarrow> dict_set d k v = d @ [(k, v)]"
  by (induction d) (auto simp: dict_keys_def)

lemma dict_get_last: "k \<notin> set (dict_keys d) \<Longrightarrow> dict_get (d @ [(k, v)]) k = Some v"
  by (induction d) (auto simp: dict_keys_def dict_get_def)

lemma dict_set_last:
  "k \<notin> set (dict_keys d) \<Longrightarrow> dict_set (d @ [(k, v)]) k v' = d @ [(k, v')]"
  by (induction d) (auto simp: dict_keys_def)

lemma dict_get_nth: "i < length d \<Longrightarrow> \<exists>v. dict_get d (fst (d ! i)) = Some v"
proof -
  assume "i < length d"
  then have "fst (d ! i) \<in> fst ` set d" by (metis nth_mem imageI)
  then show ?thesis
    by (cases "map_of d (fst (d ! i))") (auto simp: dict_get_def map_of_eq_None_iff)
qed

lemma dict_set_nth:
  "distinct (dict_keys d) \<Longrightarrow> i < length d \<Longrightarrow>
     dict_set d (fst (d ! i)) v = d[i := (fst (d ! i), v)]"
proof (induction d arbitrary: i)
  case Nil
  then show ?case by simp
next
  case (Cons a d)
  obtain k' v' where a: "a = (k', v')" by (cases a)
  show ?case
  proof (cases i)
    case 0
    then show ?thesis by (simp add: a)
  next
    case (Suc j)
    with Cons.prems have j: "j < length d" and dd: "distinct (dict_keys d)"
      and nin: "k' \<notin> set (dict_keys d)"
      by (auto simp: dict_keys_def a)
    from j have "fst (d ! j) \<in> set (dict_keys d)" by (simp add: dict_keys_def)
    with nin have "k' \<noteq> fst (d ! j)" by auto
    with Cons.IH[OF dd j] show ?thesis by (simp add: a Suc)
  qed
qed

lemma dict_remove_nth:
  "distinct (dict_keys d) \<Longrightarrow> i < length d \<Longrightarrow>
     dict_remove d (fst (d ! i)) = take i d @ drop (Suc i) d"
proof (induction d arbitrary: i)
  case Nil
  then show ?case by simp
next
  case (Cons a d)
  obtain k' v' where a: "a = (k', v')" by (cases a)
  show ?case
  proof (cases i)
    case 0
    then show ?thesis by (simp add: a)
  next
    case (Suc j)
    with Cons.prems have j: "j < length d" and dd: "distinct (dict_keys d)"
      and nin: "k' \<notin> set (dict_keys d)"
      by (auto simp: dict_keys_def a)
    from j have "fst (d ! j) \<in> set (dict_keys d)" by (simp add: dict_keys_def)
    with nin have "k' \<noteq> fst (d ! j)" by auto
    with Cons.IH[OF dd j] show ?thesis by (simp add: a Suc)
  qed
qed

lemma dict_keys_set:
  "dict_keys (dict_set d k v) =
     (if k \<in> set (dict_keys d) then dict_keys d else dict_keys d @ [k])"
  by (induction d) (force simp: dict_keys_def)+

lemma dict_keys_remove:
  "distinct (dict_keys d) \<Longrightarrow> dict_keys (dict_remove d k) = removeAll k (dict_keys d)"
  by (induction d) (auto simp: dict_keys_def)

lemma distinct_dict_set: "distinct (dict_keys d) \<Longrightarrow> distinct (dict_keys (dict_set d k v))"
  by (simp add: dict_keys_set)

lemma distinct_dict_remove: "distinct (dict_keys d) \<Longrightarrow> distinct (dict_keys (dict_remove d k))"
  by (simp add: dict_keys_remove distinct_removeAll)

lemma dict_get_update_other:
  "k \<noteq> fst (d ! i) \<Longrightarrow> dict_get (d[i := (fst (d ! i), v)]) k = dict_get d k"
proof (induction d arbitrary: i)
  case Nil
  then show ?case by simp
next
  case (Cons a d)
  then show ?case by (cases i) (auto simp: dict_get_def)
qed

lemma dict_get_remove:
  "distinct (dict_keys d) \<Longrightarrow>
     dict_get (dict_remove d k) k' = (if k' = k then None else dict_get d k')"
proof -
  assume dd: "distinct (dict_keys d)"
  have "map_of (dict_remove d k) k' = (if k' = k then None else map_of d k')"
    using dd
  proof (induction d)
    case Nil
    then show ?case by simp
  next
    case (Cons a d)
    obtain x v where a: "a = (x, v)" by (cases a)
    from Cons.prems have nin: "x \<notin> fst ` set d" and dd': "distinct (dict_keys d)"
      by (auto simp: a dict_keys_def)
    show ?case
    proof (cases "x = k")
      case True
      with nin show ?thesis by (auto simp: a map_of_eq_None_iff)
    next
      case False
      with Cons.IH[OF dd'] show ?thesis by (auto simp: a)
    qed
  qed
  then show ?thesis by (simp add: dict_get_def)
qed

section \<open>The success handler\<close>

text \<open>
  Claim C6.  Whatever the cart held, it is empty after \<open>order_success\<close>, which renders
  the success page.  A second run of the handler leaves the state of the first, and on
  an empty cart the handler changes nothing.
\<close>

theorem order_success_clears:
  "fst (order_success c w) = Inr (Render ''success.html'') \<and>
   cart (snd (order_success c w)) = [] \<and>
   snd (order_success c' (snd (order_success c w))) = snd (order_success c w) \<and>
   snd (order_success c (w\<lparr>cart := []\<rparr>)) = w\<lparr>cart := []\<rparr>"
  by (simp add: order_success_def)

text \<open>
  Claim C10.  The success handler checks nothing.  For every request method, form and
  sign-in state, every catalog, cart and list of flashed messages, and with no payment
  request ever submitted, one request to the success endpoint succeeds and empties the
  cart, changing nothing else.
\<close>

theorem order_success_unconditional:
  "order_success \<lparr>req_method = m, form = f, is_authenticated = a\<rparr>
     \<lparr>meals = ms, cart = d, flashes = fs, stripe_calls = []\<rparr>
   = (Inr (Render ''success.html''),
      \<lparr>meals = ms, cart = [], flashes = fs, stripe_calls = []\<rparr>)"
  by (simp add: order_success_def)

section \<open>Checkout\<close>

text \<open>
  Claim C7.  When the session is not authenticated, \<open>create_checkout_session\<close> submits
  nothing to the payment provider, whatever the provider would answer, leaves the cart
  as it is, flashes the sign-in notice and redirects to the login page.
\<close>

theorem checkout_unauthenticated:
  assumes "\<not> is_authenticated c"
  shows "create_checkout_session stripe_create c w =
           (Inr (Redirect ''/login'' 302),
            w\<lparr>flashes := flashes w @ [''You must be signed in to checkout. Please log in!'']\<rparr>) \<and>
         stripe_calls (snd (create_checkout_session stripe_create c w)) = stripe_calls w \<and>
         cart (snd (create_checkout_session stripe_create c w)) = cart w"
  using assms by (simp add: create_checkout_session_def url_for_def)

theorem checkout_unauthenticated_witness:
  "create_checkout_session (\<lambda>lis. Inr ''https://pay.example/session'') (visitor POST [])
     (example_world\<lparr>cart := [(1, PyInt 2)]\<rparr>) =
     (Inr (Redirect ''/login'' 302),
      example_world\<lparr>cart := [(1, PyInt 2)],
        flashes := [''You must be signed in to checkout. Please log in!'']\<rparr>) \<and>
   stripe_calls (snd (create_checkout_session (\<lambda>lis. Inr ''https://pay.example/session'')
     (visitor POST []) (example_world\<lparr>cart := [(1, PyInt 2)]\<rparr>))) = [] \<and>
   cart (snd (create_checkout_session (\<lambda>lis. Inr ''https://pay.example/session'')
     (visitor POST []) (example_world\<lparr>cart := [(1, PyInt 2)]\<rparr>))) = [(1, PyInt 2)]"
proof -
  have h: "\<not> is_authenticated (visitor POST [])" by (simp add: visitor_def)
  show ?thesis
    using checkout_unauthenticated [OF h, of "\<lambda>lis. Inr ''https://pay.example/session''"
        "example_world\<lparr>cart := [(1, PyInt 2)]\<rparr>"]
    by (simp add: example_world_def)
qed

section \<open>Incrementing\<close>

lemma add_to_cart_absent:
  "mid \<notin> set (dict_keys (cart w)) \<Longrightarrow>
     add_to_cart mid c w =
       (Inr (Redirect ''/'' 302), w\<lparr>cart := cart w @ [(mid, PyInt 1)]\<rparr>)"
  by (simp add: add_to_cart_def dict_get_absent dict_set_absent url_for_def)

lemma add_to_cart_counted:
  "mid \<notin> set (dict_keys d) \<Longrightarrow> cart w = d @ [(mid, PyInt n)] \<Longrightarrow> n \<noteq> 0 \<Longrightarrow>
     add_to_cart mid c w =
       (Inr (Redirect ''/'' 302), w\<lparr>cart := d @ [(mid, PyInt (n + 1))]\<rparr>)"
  by (simp add: add_to_cart_def dict_get_last dict_set_last url_for_def)

lemma serve_add_counted:
  "mid \<notin> set (dict_keys d) \<Longrightarrow> cart w = d @ [(mid, PyInt n)] \<Longrightarrow> 0 < n \<Longrightarrow>
     serve (map (add_to_cart mid) cs) w =
       (replicate (length cs) (Inr (Redirect ''/'' 302)),
        w\<lparr>cart := d @ [(mid, PyInt (n + int (length cs)))]\<rparr>)"
proof (induction cs arbitrary: w n)
  case Nil
  then show ?case by simp
next
  case (Cons c cs)
  let ?w' = "w\<lparr>cart := d @ [(mid, PyInt (n + 1))]\<rparr>"
  have step: "add_to_cart mid c w = (Inr (Redirect ''/'' 302), ?w')"
    using Cons.prems by (intro add_to_cart_counted) auto
  have "serve (map (add_to_cart mid) cs) ?w' =
          (replicate (length cs) (Inr (Redirect ''/'' 302)),
           ?w'\<lparr>cart := d @ [(mid, PyInt (n + 1 + int (length cs)))]\<rparr>)"
    using Cons.prems by (intro Cons.IH) auto
  with step show ?case by (simp add: add.assoc add.commute)
qed

text \<open>
  Claim C3, as amended.  Starting from a cart without the id, any positive number of
  \<open>add_to_cart\<close> requests for that id all succeed and leave the id, appended to the
  cart, with the number of requests as its quantity.  This holds for every id: the view
  never consults the catalog and has no failure for an id outside it.
\<close>

theorem add_to_cart_counts:
  assumes "mid \<notin> set (dict_keys (cart w))" and "cs \<noteq> []"
  shows "serve (map (add_to_cart mid) cs) w =
           (replicate (length cs) (Inr (Redirect ''/'' 302)),
            w\<lparr>cart := cart w @ [(mid, PyInt (int (length cs)))]\<rparr>)"
proof -
  from assms(2) obtain c cs' where cs: "cs = c # cs'" by (cases cs) auto
  let ?w' = "w\<lparr>cart := cart w @ [(mid, PyInt 1)]\<rparr>"
  have first: "add_to_cart mid c w = (Inr (Redirect ''/'' 302), ?w')"
    using assms(1) by (rule add_to_cart_absent)
  have "serve (map (add_to_cart mid) cs') ?w' =
          (replicate (length cs') (Inr (Redirect ''/'' 302)),
           ?w'\<lparr>cart := cart w @ [(mid, PyInt (1 + int (length cs')))]\<rparr>)"
    using assms(1) by (intro serve_add_counted) auto
  with first show ?thesis by (simp add: cs)
qed

theorem add_to_cart_counts_witness:
  "serve (map (add_to_cart 1) [visitor GET [], visitor GET [], visitor GET []])
     (example_world\<lparr>cart := [(2, PyInt 1)]\<rparr>) =
     ([Inr (Redirect ''/'' 302), Inr (Redirect ''/'' 302), Inr (Redirect ''/'' 302)],
      example_world\<lparr>cart := [(2, PyInt 1), (1, PyInt 3)]\<rparr>)"
proof -
  have h1: "1 \<notin> set (dict_keys (cart (example_world\<lparr>cart := [(2, PyInt 1)]\<rparr>)))"
    by (simp add: dict_keys_def)
  have h2: "[visitor GET [], visitor GET [], visitor GET []] \<noteq> []" by simp
  show ?thesis
    using add_to_cart_counts [OF h1 h2] by simp
qed

text \<open>
  The claim as stated fails: the id 99 is not in the catalog, and incrementing it
  succeeds and stores it.
\<close>

theorem add_to_cart_unknown_id_counterexample:
  "add_to_cart 99 (visitor GET []) example_world =
     (Inr (Redirect ''/'' 302), example_world\<lparr>cart := [(99, PyInt 1)]\<rparr>) \<and>
   99 \<notin> meal_id ` set (meals example_world)"
  by (simp add: add_to_cart_def dict_get_def dict_keys_def url_for_def example_world_def
        soup_def salad_def)

section \<open>Deriving line items\<close>

lemma find_by_position:
  assumes ids: "\<forall>i<length ms. meal_id (ms ! i) = int i + 1"
    and k: "1 \<le> k" "k \<le> length ms"
  shows "find (\<lambda>m. meal_id m = int k) ms = Some (ms ! (k - 1))"
proof -
  have lt: "k - 1 < length ms" using k by simp
  have here: "meal_id (ms ! (k - 1)) = int k" using ids lt k by auto
  have before: "\<forall>j<k - 1. meal_id (ms ! j) \<noteq> int k"
  proof (intro allI impI)
    fix j assume "j < k - 1"
    then have "j < length ms" and "int j + 1 \<noteq> int k" using lt by auto
    with ids show "meal_id (ms ! j) \<noteq> int k" by auto
  qed
  show ?thesis
    unfolding find_Some_iff using lt here before by blast
qed

lemma id_in_catalog:
  assumes ids: "\<forall>i<length ms. meal_id (ms ! i) = int i + 1"
    and mem: "int k \<in> meal_id ` set ms"
  shows "1 \<le> k \<and> k \<le> length ms"
proof -
  from mem obtain m where "m \<in> set ms" and m: "meal_id m = int k" by auto
  then obtain i where i: "i < length ms" and "ms ! i = m" by (auto simp: in_set_conv_nth)
  with ids m have "int k = int i + 1" by auto
  with i show ?thesis by auto
qed

lemma py_index_position:
  "1 \<le> k \<Longrightarrow> k \<le> length ms \<Longrightarrow> py_index ms (int k - 1) = Inr (ms ! (k - 1))"
  by (auto simp: py_index_def nat_diff_distrib' int_ops)

lemma py_index_beyond: "length ms < k \<Longrightarrow> py_index ms (int k - 1) = Inl IndexError"
  by (auto simp: py_index_def)

lemma loop_by_position:
  "\<forall>k\<in>set (dict_keys d). 1 \<le> k \<and> k \<le> length ms \<Longrightarrow>
     line_items_loop ms d lis ids =
       Inr (lis @ map (\<lambda>(k, q). make_line_item (ms ! (k - 1)) q) d, ids @ dict_keys d)"
proof (induction d arbitrary: lis ids)
  case Nil
  then show ?case by (simp add: dict_keys_def)
next
  case (Cons a d)
  obtain k q where a: "a = (k, q)" by (cases a)
  from Cons.prems have k: "1 \<le> k" "k \<le> length ms"
    and rest: "\<forall>k\<in>set (dict_keys d). 1 \<le> k \<and> k \<le> length ms"
    by (auto simp: a dict_keys_def)
  show ?case
    using Cons.IH[OF rest] py_index_position[OF k]
    by (simp add: a dict_keys_def)
qed

lemma loop_beyond:
  "\<exists>k\<in>set (dict_keys d). length ms < k \<Longrightarrow> line_items_loop ms d lis ids = Inl IndexError"
proof (induction d arbitrary: lis ids)
  case Nil
  then show ?case by (simp add: dict_keys_def)
next
  case (Cons a d)
  obtain k q where a: "a = (k, q)" by (cases a)
  show ?case
  proof (cases "py_index ms (int k - 1)")
    case (Inl e)
    then show ?thesis using py_index_error[OF Inl] by (simp add: a)
  next
    case (Inr m)
    then have "\<not> length ms < k" using py_index_beyond[of ms k] by auto
    with Cons.prems have "\<exists>k\<in>set (dict_keys d). length ms < k"
      by (auto simp: a dict_keys_def)
    from Cons.IH[OF this] Inr show ?thesis by (simp add: a)
  qed
qed

lemma derive_by_position:
  assumes ids: "\<forall>i<length ms. meal_id (ms ! i) = int i + 1"
  shows "\<forall>k\<in>set (dict_keys d). 1 \<le> k \<and> k \<le> length ms \<Longrightarrow>
     derive_by_id ms d = Inr (map (\<lambda>(k, q). make_line_item (ms ! (k - 1)) q) d)"
proof (induction d)
  case Nil
  then show ?case by simp
next
  case (Cons a d)
  obtain k q where a: "a = (k, q)" by (cases a)
  from Cons.prems have k: "1 \<le> k" "k \<le> length ms"
    and rest: "\<forall>k\<in>set (dict_keys d). 1 \<le> k \<and> k \<le> length ms"
    by (auto simp: a dict_keys_def)
  show ?case
    using Cons.IH[OF rest] find_by_position[OF ids k]
    by (simp add: a)
qed

text \<open>
  Claim C1, as amended.  Take a catalog list whose item at position \<open>i\<close> (from 0) has
  the id \<open>i + 1\<close>.  For every cart whose keys are all catalog ids, \<open>get_line_items\<close>
  returns the line items that the lookup by id gives, in cart order, together with the
  cart's keys.  A cart with a key larger than the length of the catalog makes it raise
  an \<open>IndexError\<close>, which no view handles.
\<close>

theorem get_line_items_by_id:
  assumes ids: "\<forall>i<length (meals w). meal_id (meals w ! i) = int i + 1"
  shows "((\<forall>k\<in>set (dict_keys (cart w)). int k \<in> meal_id ` set (meals w)) \<longrightarrow>
            (\<exists>lis. derive_by_id (meals w) (cart w) = Inr lis \<and>
                   get_line_items w = Inr (lis, dict_keys (cart w)))) \<and>
         ((\<exists>k\<in>set (dict_keys (cart w)). length (meals w) < k) \<longrightarrow>
            get_line_items w = Inl IndexError)"
proof (intro conjI impI)
  assume "\<forall>k\<in>set (dict_keys (cart w)). int k \<in> meal_id ` set (meals w)"
  then have range: "\<forall>k\<in>set (dict_keys (cart w)). 1 \<le> k \<and> k \<le> length (meals w)"
    using id_in_catalog[OF ids] by blast
  show "\<exists>lis. derive_by_id (meals w) (cart w) = Inr lis \<and>
              get_line_items w = Inr (lis, dict_keys (cart w))"
    using derive_by_position[OF ids range] loop_by_position[OF range, of "[]" "[]"]
    by (simp add: get_line_items_def)
next
  assume "\<exists>k\<in>set (dict_keys (cart w)). length (meals w) < k"
  then show "get_line_items w = Inl IndexError"
    by (simp add: get_line_items_def loop_beyond)
qed

theorem get_line_items_by_id_witness:
  "(\<exists>lis. derive_by_id (meals example_world) [(2, PyInt 1), (1, PyInt 2)] = Inr lis \<and>
          get_line_items (example_world\<lparr>cart := [(2, PyInt 1), (1, PyInt 2)]\<rparr>) =
            Inr (lis, [2, 1])) \<and>
   get_line_items (example_world\<lparr>cart := [(1, PyInt 1), (3, PyInt 1)]\<rparr>) = Inl IndexError"
proof -
  let ?w1 = "example_world\<lparr>cart := [(2, PyInt 1), (1, PyInt 2)]\<rparr>"
  let ?w2 = "example_world\<lparr>cart := [(1, PyInt 1), (3, PyInt 1)]\<rparr>"
  have ids1: "\<forall>i<length (meals ?w1). meal_id (meals ?w1 ! i) = int i + 1"
    by (simp add: example_world_def soup_def salad_def less_Suc_eq)
  have ids2: "\<forall>i<length (meals ?w2). meal_id (meals ?w2 ! i) = int i + 1"
    by (simp add: example_world_def soup_def salad_def less_Suc_eq)
  have keys1: "\<forall>k\<in>set (dict_keys (cart ?w1)). int k \<in> meal_id ` set (meals ?w1)"
    by (simp add: example_world_def soup_def salad_def dict_keys_def)
  have keys2: "\<exists>k\<in>set (dict_keys (cart ?w2)). length (meals ?w2) < k"
    by (simp add: example_world_def dict_keys_def)
  have a: "\<exists>lis. derive_by_id (meals ?w1) (cart ?w1) = Inr lis \<and>
                get_line_items ?w1 = Inr (lis, dict_keys (cart ?w1))"
    using get_line_items_by_id [OF ids1] keys1 by blast
  have b: "get_line_items ?w2 = Inl IndexError"
    using get_line_items_by_id [OF ids2] keys2 by blast
  have sel: "meals ?w1 = meals example_world" "cart ?w1 = [(2, PyInt 1), (1, PyInt 2)]"
    "dict_keys [(2 :: nat, PyInt 1), (1, PyInt 2)] = [2, 1]"
    by (simp_all add: dict_keys_def)
  from a b show ?thesis
    unfolding sel by (rule conjI)
qed

text \<open>
  The claim as stated fails.  With the two catalog rows in the other order, the cart
  key 1 references the existing id of the soup, yet \<open>get_line_items\<close> returns the
  salad, the item at position 0; the lookup by id returns the soup, and so does
  \<open>get_line_items\<close> on the catalog in its first order.  A cart key without a catalog
  item, here 3, gives an \<open>IndexError\<close> where the lookup by id gives \<open>UnknownItem\<close>.
\<close>

theorem get_line_items_reordered_counterexample:
  "get_line_items (reordered_world\<lparr>cart := [(1, PyInt 1)]\<rparr>) =
     Inr ([\<lparr>currency = ''usd'', product_name = ''Salad'', unit_amount_decimal = 600,
            quantity = PyInt 1\<rparr>], [1]) \<and>
   derive_by_id (meals reordered_world) [(1, PyInt 1)] =
     Inr [\<lparr>currency = ''usd'', product_name = ''Soup'', unit_amount_decimal = 450,
           quantity = PyInt 1\<rparr>] \<and>
   get_line_items (example_world\<lparr>cart := [(1, PyInt 1)]\<rparr>) =
     Inr ([\<lparr>currency = ''usd'', product_name = ''Soup'', unit_amount_decimal = 450,
            quantity = PyInt 1\<rparr>], [1]) \<and>
   get_line_items (example_world\<lparr>cart := [(3, PyInt 1)]\<rparr>) = Inl IndexError \<and>
   derive_by_id (meals example_world) [(3, PyInt 1)] = Inl UnknownItem"
  by code_simp

lemma loop_resolved:
  "line_items_loop ms d lis0 ids0 = Inr (lis, ids) \<Longrightarrow>
     \<exists>rs. length rs = length d \<and>
          (\<forall>i<length d. py_index ms (int (fst (d ! i)) - 1) = Inr (rs ! i)) \<and>
          lis = lis0 @ map (\<lambda>(m, kq). make_line_item m (snd kq)) (zip rs d)"
proof (induction d arbitrary: lis0 ids0)
  case Nil
  then show ?case by simp
next
  case (Cons a d)
  obtain k q where a: "a = (k, q)" by (cases a)
  from Cons.prems obtain m where m: "py_index ms (int k - 1) = Inr m"
    and rest: "line_items_loop ms d (lis0 @ [make_line_item m q]) (ids0 @ [k]) = Inr (lis, ids)"
    by (auto simp: a split: sum.splits)
  from Cons.IH[OF rest] obtain rs where rs: "length rs = length d"
    "\<forall>i<length d. py_index ms (int (fst (d ! i)) - 1) = Inr (rs ! i)"
    "lis = (lis0 @ [make_line_item m q]) @ map (\<lambda>(m, kq). make_line_item m (snd kq)) (zip rs d)"
    by blast
  have "\<forall>i<length (a # d). py_index ms (int (fst ((a # d) ! i)) - 1) = Inr ((m # rs) ! i)"
  proof (intro allI impI)
    fix i assume "i < length (a # d)"
    then show "py_index ms (int (fst ((a # d) ! i)) - 1) = Inr ((m # rs) ! i)"
      using m rs(2) by (cases i) (auto simp: a)
  qed
  moreover have "length (m # rs) = length (a # d)" using rs(1) by simp
  moreover have "lis = lis0 @ map (\<lambda>(m, kq). make_line_item m (snd kq)) (zip (m # rs) (a # d))"
    using rs(3) by (simp add: a)
  ultimately show ?case by blast
qed

text \<open>
  Claim C4, as amended.  Whenever \<open>get_line_items\<close> returns, there is one line item
  for each cart entry, and the unit amount of the item at position \<open>i\<close> is the
  floating-point product of 100 and the price of the meal the \<open>i\<close>-th cart key was
  resolved to.  The product is not rounded: it equals its rounding to an integer
  exactly when it is integral already.
\<close>

theorem unit_amount_is_product:
  assumes "get_line_items w = Inr (lis, ids)" and "i < length lis"
  shows "length lis = length (cart w) \<and>
         (\<exists>m. py_index (meals w) (int (fst (cart w ! i)) - 1) = Inr m \<and>
              unit_amount_decimal (lis ! i) = fmul (price m) 100 \<and>
              ((unit_amount_decimal (lis ! i) = of_int (round_half_even (fmul (price m) 100)))
                 = (fmul (price m) 100 \<in> \<int>)))"
proof -
  from assms(1) obtain rs where rs: "length rs = length (cart w)"
    "\<forall>i<length (cart w). py_index (meals w) (int (fst (cart w ! i)) - 1) = Inr (rs ! i)"
    "lis = map (\<lambda>(m, kq). make_line_item m (snd kq)) (zip rs (cart w))"
    unfolding get_line_items_def using loop_resolved[of "meals w" "cart w" "[]" "[]" lis ids]
    by auto
  from rs(1,3) have len: "length lis = length (cart w)" by simp
  with assms(2) have i: "i < length (cart w)" by simp
  have item: "lis ! i = make_line_item (rs ! i) (snd (cart w ! i))"
    using i rs(1) by (simp add: rs(3))
  have amount: "unit_amount_decimal (lis ! i) = fmul (price (rs ! i)) 100"
    by (simp add: item make_line_item_def)
  show ?thesis
    using len rs(2) i amount integral_iff_rounded[of "fmul (price (rs ! i)) 100"]
    by auto
qed

theorem unit_amount_is_product_witness:
  "get_line_items (example_world\<lparr>cart := [(1, PyInt 2)]\<rparr>) =
     Inr ([make_line_item soup (PyInt 2)], [1]) \<and>
   (\<exists>m. py_index (meals (example_world\<lparr>cart := [(1, PyInt 2)]\<rparr>))
           (int (fst (cart (example_world\<lparr>cart := [(1, PyInt 2)]\<rparr>) ! 0)) - 1) = Inr m \<and>
        unit_amount_decimal ([make_line_item soup (PyInt 2)] ! 0) = fmul (price m) 100)"
proof -
  have h1: "get_line_items (example_world\<lparr>cart := [(1, PyInt 2)]\<rparr>) =
              Inr ([make_line_item soup (PyInt 2)], [1])"
    by (simp add: get_line_items_def example_world_def py_index_def)
  have h2: "0 < length [make_line_item soup (PyInt 2)]" by simp
  show ?thesis
    using unit_amount_is_product [OF h1 h2] h1 by blast
qed

text \<open>
  The claim as stated fails.  For the price 4.35 the unit amount is
  434.99999999999994 and for the price 0.125 it is 12.5; neither is an integer, and
  rounding would give 435 and 12.
\<close>

theorem unit_amount_unrounded_counterexample:
  "get_line_items priced_world =
     Inr ([\<lparr>currency = ''usd'', product_name = ''Stew'',
            unit_amount_decimal = 7652600929320959 / 17592186044416, quantity = PyInt 1\<rparr>,
           \<lparr>currency = ''usd'', product_name = ''Tea'',
            unit_amount_decimal = 25 / 2, quantity = PyInt 1\<rparr>], [1, 2]) \<and>
   round_half_even (7652600929320959 / 17592186044416) = 435 \<and>
   (7652600929320959 / 17592186044416 :: rat) \<noteq> 435 \<and>
   round_half_even (25 / 2) = 12 \<and>
   (25 / 2 :: rat) \<noteq> 12"
  by code_simp

section \<open>The example of the specification\<close>

text \<open>
  Claim C5.  With the catalog of soup at 4.50 and salad at 6.00 and an empty cart, two
  increments of id 1 and one of id 2 succeed, and the cart page then shows the line
  items Soup, 450, 2 and Salad, 600, 1 in this order with the total 15.0.
\<close>

theorem spec_example:
  "serve [add_to_cart 1 (visitor GET []), add_to_cart 1 (visitor GET []),
          add_to_cart 2 (visitor GET []), shopping_cart (visitor GET [])] example_world =
   ([Inr (Redirect ''/'' 302), Inr (Redirect ''/'' 302), Inr (Redirect ''/'' 302),
     Inr (RenderCart (NFloat 15)
        [\<lparr>currency = ''usd'', product_name = ''Soup'', unit_amount_decimal = 450,
          quantity = PyInt 2\<rparr>,
         \<lparr>currency = ''usd'', product_name = ''Salad'', unit_amount_decimal = 600,
          quantity = PyInt 1\<rparr>]
        [1, 2])],
    example_world\<lparr>cart := [(1, PyInt 2), (2, PyInt 1)]\<rparr>)"
  by code_simp

section \<open>Removing and setting a quantity by position\<close>

lemma keys_index:
  "i < length d \<Longrightarrow> py_index (dict_keys d) (int i) = Inr (fst (d ! i))"
  by (simp add: py_index_nat dict_keys_def)

lemma keys_index_beyond:
  "length d \<le> i \<Longrightarrow> py_index (dict_keys d) (int i) = Inl IndexError"
  by (simp add: py_index_nat dict_keys_def)

lemma pop_entry_nth:
  assumes "distinct (dict_keys (cart w))" and "i < length (cart w)"
  shows "pop_entry (fst (cart w ! i)) w =
           (Inr cart_redirect, w\<lparr>cart := take i (cart w) @ drop (Suc i) (cart w)\<rparr>)"
proof -
  from dict_get_nth[OF assms(2)] obtain v where "dict_get (cart w) (fst (cart w ! i)) = Some v"
    by blast
  then show ?thesis
    by (simp add: pop_entry_def dict_pop_def dict_remove_nth[OF assms])
qed

lemma update_quantity_beyond:
  "length (cart w) \<le> i \<Longrightarrow> update_quantity i c w = (Inl IndexError, w)"
  by (simp add: update_quantity_def keys_index_beyond)

lemma update_quantity_get:
  assumes "i < length (cart w)" and "distinct (dict_keys (cart w))" and "req_method c = GET"
  shows "update_quantity i c w =
           (Inr cart_redirect, w\<lparr>cart := take i (cart w) @ drop (Suc i) (cart w)\<rparr>)"
  using assms by (simp add: update_quantity_def keys_index pop_entry_nth)

lemma update_quantity_no_field:
  assumes "i < length (cart w)" and "req_method c \<noteq> GET"
    and "form_get (form c) (''quantity-'' @ str_of_nat i) = Inl e"
  shows "update_quantity i c w = (Inl e, w)"
  using assms by (simp add: update_quantity_def keys_index)

lemma update_quantity_field:
  assumes i: "i < length (cart w)" and dd: "distinct (dict_keys (cart w))"
    and m: "req_method c \<noteq> GET"
    and f: "form_get (form c) (''quantity-'' @ str_of_nat i) = Inr s"
  shows "update_quantity i c w =
           (case py_int s of
              Inl e \<Rightarrow> (Inl e, w)
            | Inr n \<Rightarrow>
                if 0 < n then
                  (Inr cart_redirect, w\<lparr>cart := (cart w)[i := (fst (cart w ! i), PyStr s)]\<rparr>)
                else
                  (Inr cart_redirect, w\<lparr>cart := take i (cart w) @ drop (Suc i) (cart w)\<rparr>))"
proof (cases "py_int s")
  case (Inl e)
  with m f show ?thesis by (simp add: update_quantity_def keys_index[OF i])
next
  case (Inr n)
  with m f show ?thesis
    by (simp add: update_quantity_def keys_index[OF i] pop_entry_nth[OF dd i]
          dict_set_nth[OF dd i])
qed

text \<open>
  The views keep the keys of the cart distinct, so the cart stays a dictionary.
\<close>

lemma add_to_cart_distinct:
  assumes "distinct (dict_keys (cart w))"
  shows "distinct (dict_keys (cart (snd (add_to_cart mid c w))))"
proof (cases "dict_get (cart w) mid")
  case None
  with assms show ?thesis by (simp add: add_to_cart_def distinct_dict_set)
next
  case (Some v)
  with assms show ?thesis
    by (cases v) (simp_all add: add_to_cart_def distinct_dict_set)
qed

lemma pop_entry_distinct:
  assumes "distinct (dict_keys (cart w))"
  shows "distinct (dict_keys (cart (snd (pop_entry k w))))"
proof (cases "dict_get (cart w) k")
  case None
  with assms show ?thesis by (simp add: pop_entry_def dict_pop_def)
next
  case (Some v)
  with assms show ?thesis by (simp add: pop_entry_def dict_pop_def distinct_dict_remove)
qed

lemma update_quantity_distinct:
  assumes "distinct (dict_keys (cart w))"
  shows "distinct (dict_keys (cart (snd (update_quantity i c w))))"
proof (cases "i < length (cart w)")
  case False
  with assms show ?thesis by (simp add: update_quantity_beyond)
next
  case True
  note i = this
  show ?thesis
  proof (cases "req_method c = GET")
    case True
    with assms i show ?thesis
      using pop_entry_distinct[OF assms, of "fst (cart w ! i)"]
      by (simp add: update_quantity_def keys_index)
  next
    case False
    note m = this
    show ?thesis
    proof (cases "form_get (form c) (''quantity-'' @ str_of_nat i)")
      case (Inl e)
      with assms show ?thesis by (simp add: update_quantity_no_field[OF i m])
    next
      case (Inr s)
      note s = this
      show ?thesis
      proof (cases "py_int s")
        case (Inl e)
        with assms m s show ?thesis by (simp add: update_quantity_def keys_index[OF i])
      next
        case (Inr n)
        with assms m s show ?thesis
          using pop_entry_distinct[OF assms, of "fst (cart w ! i)"]
          by (simp add: update_quantity_def keys_index[OF i] distinct_dict_set)
      qed
    qed
  qed
qed

text \<open>
  Claim C9.  For a position at or beyond the size of the cart, \<open>update_quantity\<close>
  raises an \<open>IndexError\<close>, whatever the method and the form, and the state is the one
  before the request: the subscript of the key list fails before any cart operation.
  The error is the raw Python exception, not an error of the cart taxonomy.  For a
  position \<open>i\<close> inside the cart, a GET removes exactly the \<open>i\<close>-th entry, and any other
  request either fails on its form field without changing the state, or overwrites the
  value of the \<open>i\<close>-th entry in place, or removes the \<open>i\<close>-th entry.
\<close>

theorem update_quantity_position:
  "(length (cart w) \<le> i \<longrightarrow> update_quantity i c w = (Inl IndexError, w)) \<and>
   (i < length (cart w) \<and> distinct (dict_keys (cart w)) \<longrightarrow>
      update_quantity i c w =
        (if req_method c = GET then
           (Inr cart_redirect, w\<lparr>cart := take i (cart w) @ drop (Suc i) (cart w)\<rparr>)
         else
           (case form_get (form c) (''quantity-'' @ str_of_nat i) of
              Inl e \<Rightarrow> (Inl e, w)
            | Inr s \<Rightarrow>
                (case py_int s of
                   Inl e \<Rightarrow> (Inl e, w)
                 | Inr n \<Rightarrow>
                     if 0 < n then
                       (Inr cart_redirect,
                        w\<lparr>cart := (cart w)[i := (fst (cart w ! i), PyStr s)]\<rparr>)
                     else
                       (Inr cart_redirect,
                        w\<lparr>cart := take i (cart w) @ drop (Suc i) (cart w)\<rparr>)))))"
proof (intro conjI impI)
  assume "length (cart w) \<le> i"
  then show "update_quantity i c w = (Inl IndexError, w)"
    by (rule update_quantity_beyond)
next
  assume "i < length (cart w) \<and> distinct (dict_keys (cart w))"
  then have i: "i < length (cart w)" and dd: "distinct (dict_keys (cart w))" by auto
  show "update_quantity i c w =
        (if req_method c = GET then
           (Inr cart_redirect, w\<lparr>cart := take i (cart w) @ drop (Suc i) (cart w)\<rparr>)
         else
           (case form_get (form c) (''quantity-'' @ str_of_nat i) of
              Inl e \<Rightarrow> (Inl e, w)
            | Inr s \<Rightarrow>
                (case py_int s of
                   Inl e \<Rightarrow> (Inl e, w)
                 | Inr n \<Rightarrow>
                     if 0 < n then
                       (Inr cart_redirect,
                        w\<lparr>cart := (cart w)[i := (fst (cart w ! i), PyStr s)]\<rparr>)
                     else
                       (Inr cart_redirect,
                        w\<lparr>cart := take i (cart w) @ drop (Suc i) (cart w)\<rparr>))))"
  proof (cases "req_method c = GET")
    case True
    then show ?thesis by (simp add: update_quantity_get[OF i dd])
  next
    case False
    show ?thesis
    proof (cases "form_get (form c) (''quantity-'' @ str_of_nat i)")
      case (Inl e)
      with False show ?thesis by (simp add: update_quantity_no_field[OF i])
    next
      case (Inr s)
      with False show ?thesis by (simp add: update_quantity_field[OF i dd])
    qed
  qed
qed

theorem update_quantity_position_witness:
  "update_quantity 2 (visitor POST [(''quantity-2'', ''4'')])
     (example_world\<lparr>cart := [(1, PyInt 2), (2, PyInt 1)]\<rparr>) =
     (Inl IndexError, example_world\<lparr>cart := [(1, PyInt 2), (2, PyInt 1)]\<rparr>) \<and>
   update_quantity 0 (visitor GET [])
     (example_world\<lparr>cart := [(1, PyInt 2), (2, PyInt 1)]\<rparr>) =
     (Inr cart_redirect, example_world\<lparr>cart := [(2, PyInt 1)]\<rparr>)"
proof -
  let ?w = "example_world\<lparr>cart := [(1, PyInt 2), (2, PyInt 1)]\<rparr>"
  have out: "length (cart ?w) \<le> 2" by simp
  have inside: "0 < length (cart ?w) \<and> distinct (dict_keys (cart ?w))"
    by (simp add: dict_keys_def)
  have a: "update_quantity 2 (visitor POST [(''quantity-2'', ''4'')]) ?w = (Inl IndexError, ?w)"
    using update_quantity_position [of ?w 2 "visitor POST [(''quantity-2'', ''4'')]"] out
    by blast
  have b: "update_quantity 0 (visitor GET []) ?w =
             (Inr cart_redirect, ?w\<lparr>cart := take 0 (cart ?w) @ drop (Suc 0) (cart ?w)\<rparr>)"
    using update_quantity_position [of ?w 0 "visitor GET []"] inside
    by (simp add: visitor_def)
  from a b show ?thesis by simp
qed

text \<open>
  Claim C2, as amended.  Let the id be the key at position \<open>i\<close> of the cart and let
  the request carry the quantity field of that position.  If the field reads as an
  integer that is zero or negative, the id's entry is removed and every other id keeps
  its value.  If it reads as a positive integer, the request succeeds, the cart keeps
  its keys in their order and every other id keeps its value.  If the field does not
  read as an integer, the view raises a \<open>ValueError\<close> that nothing handles, and the
  state is unchanged.
\<close>

theorem set_quantity_by_form:
  assumes i: "i < length (cart w)" and dd: "distinct (dict_keys (cart w))"
    and m: "req_method c \<noteq> GET"
    and f: "form_get (form c) (''quantity-'' @ str_of_nat i) = Inr s"
  shows "case py_int s of
           Inl e \<Rightarrow> update_quantity i c w = (Inl ValueError, w)
         | Inr n \<Rightarrow>
             (\<exists>d. update_quantity i c w = (Inr cart_redirect, w\<lparr>cart := d\<rparr>) \<and>
                  (\<forall>k. k \<noteq> fst (cart w ! i) \<longrightarrow> dict_get d k = dict_get (cart w) k) \<and>
                  (if 0 < n then dict_keys d = dict_keys (cart w)
                   else dict_keys d = removeAll (fst (cart w ! i)) (dict_keys (cart w)) \<and>
                        dict_get d (fst (cart w ! i)) = None))"
proof (cases "py_int s")
  case (Inl e)
  then have "e = ValueError" by (rule py_int_error)
  with Inl show ?thesis
    using update_quantity_field[OF i dd m f] by simp
next
  case (Inr n)
  let ?k = "fst (cart w ! i)"
  have rm: "take i (cart w) @ drop (Suc i) (cart w) = dict_remove (cart w) ?k"
    using dict_remove_nth[OF dd i] by simp
  have up: "(cart w)[i := (?k, PyStr s)] = dict_set (cart w) ?k (PyStr s)"
    using dict_set_nth[OF dd i] by simp
  have kin: "?k \<in> set (dict_keys (cart w))" using i by (simp add: dict_keys_def)
  show ?thesis
  proof (cases "0 < n")
    case True
    have "update_quantity i c w =
            (Inr cart_redirect, w\<lparr>cart := (cart w)[i := (?k, PyStr s)]\<rparr>)"
      using update_quantity_field[OF i dd m f] Inr True by simp
    moreover have "dict_keys ((cart w)[i := (?k, PyStr s)]) = dict_keys (cart w)"
      unfolding up using kin by (simp add: dict_keys_set)
    moreover have "\<forall>k. k \<noteq> ?k \<longrightarrow>
        dict_get ((cart w)[i := (?k, PyStr s)]) k = dict_get (cart w) k"
      by (simp add: dict_get_update_other)
    ultimately show ?thesis using Inr True by auto
  next
    case False
    have "update_quantity i c w = (Inr cart_redirect, w\<lparr>cart := dict_remove (cart w) ?k\<rparr>)"
      using update_quantity_field[OF i dd m f] Inr False by (simp add: rm)
    moreover have "dict_keys (dict_remove (cart w) ?k) = removeAll ?k (dict_keys (cart w))"
      using dd by (rule dict_keys_remove)
    moreover have "\<forall>k. dict_get (dict_remove (cart w) ?k) k =
        (if k = ?k then None else dict_get (cart w) k)"
      using dd by (simp add: dict_get_remove)
    ultimately show ?thesis using Inr False by auto
  qed
qed

theorem set_quantity_by_form_witness:
  "py_int ''0'' = Inr 0 \<and>
   (\<exists>d. update_quantity 1 (visitor POST [(''quantity-1'', ''0'')])
           (example_world\<lparr>cart := [(1, PyInt 2), (2, PyInt 1)]\<rparr>) =
           (Inr cart_redirect, example_world\<lparr>cart := d\<rparr>) \<and>
        dict_keys d = [1] \<and> dict_get d 2 = None \<and> dict_get d 1 = Some (PyInt 2))"
proof -
  let ?w = "example_world\<lparr>cart := [(1, PyInt 2), (2, PyInt 1)]\<rparr>"
  let ?c = "visitor POST [(''quantity-1'', ''0'')]"
  have i: "1 < length (cart ?w)" by simp
  have dd: "distinct (dict_keys (cart ?w))" by (simp add: dict_keys_def)
  have m: "req_method ?c \<noteq> GET" by (simp add: visitor_def)
  have f: "form_get (form ?c) (''quantity-'' @ str_of_nat 1) = Inr ''0''"
    by code_simp
  have p: "py_int ''0'' = Inr 0" by code_simp
  have "\<exists>d. update_quantity 1 ?c ?w = (Inr cart_redirect, example_world\<lparr>cart := d\<rparr>) \<and>
            (\<forall>k. k \<noteq> 2 \<longrightarrow> dict_get d k = dict_get [(1, PyInt 2), (2, PyInt 1)] k) \<and>
            dict_keys d = removeAll 2 (dict_keys [(1, PyInt 2), (2, PyInt 1)]) \<and>
            dict_get d 2 = None"
    using set_quantity_by_form [OF i dd m f] p by simp
  then obtain d where d:
    "update_quantity 1 ?c ?w = (Inr cart_redirect, example_world\<lparr>cart := d\<rparr>)"
    "\<forall>k. k \<noteq> 2 \<longrightarrow> dict_get d k = dict_get [(1, PyInt 2), (2, PyInt 1)] k"
    "dict_keys d = removeAll 2 (dict_keys [(1, PyInt 2), (2, PyInt 1)])"
    "dict_get d 2 = None"
    by blast
  have one: "dict_get d 1 = Some (PyInt 2)"
    using d(2) by (simp add: dict_get_def)
  have keys: "dict_keys d = [1]"
    using d(3) by (simp add: dict_keys_def)
  from d(1) d(4) one keys p show ?thesis by blast
qed

text \<open>
  The claim as stated fails.  A quantity that is not a number is an unhandled
  \<open>ValueError\<close>, not \<open>InvalidQuantity\<close>; and for the quantity 5 the value stored is
  the submitted text, not the integer 5.
\<close>

theorem set_quantity_counterexample:
  "update_quantity 0 (visitor POST [(''quantity-0'', ''abc'')])
     (example_world\<lparr>cart := [(1, PyInt 1)]\<rparr>) =
     (Inl ValueError, example_world\<lparr>cart := [(1, PyInt 1)]\<rparr>) \<and>
   update_quantity 0 (visitor POST [(''quantity-0'', ''5'')])
     (example_world\<lparr>cart := [(1, PyInt 1)]\<rparr>) =
     (Inr (Redirect ''/shopping-cart'' 302), example_world\<lparr>cart := [(1, PyStr ''5'')]\<rparr>) \<and>
   PyStr ''5'' \<noteq> PyInt 5"
  by code_simp

section \<open>The type of the stored quantities\<close>

text \<open>
  Claim C8.  The cart \<open>{1: 1}\<close> holds a positive integer.  Setting the quantity of its
  entry to 5 through the form succeeds and stores the text \<open>'5'\<close>; the increment of
  the same id that follows raises a \<open>TypeError\<close> and the text stays in the cart.
\<close>

theorem set_then_increment_faults:
  "serve [update_quantity 0 (visitor POST [(''quantity-0'', ''5'')]),
          add_to_cart 1 (visitor GET [])]
     (example_world\<lparr>cart := [(1, PyInt 1)]\<rparr>) =
   ([Inr (Redirect ''/shopping-cart'' 302), Inl TypeError],
    example_world\<lparr>cart := [(1, PyStr ''5'')]\<rparr>)"
  by code_simp

end
